theory Spec2Isabelle
  imports Complex_Main
begin

section \<open>Impact-ESG aware portfolio selection: the notebook as HOL functions\<close>

text \<open>
  The notebook \<^verbatim>\<open>Impact-ESG-aware-portfolio-selection.ipynb\<close> is a sequence of cells that
  build a universe of instruments, compute return statistics, and hand three objective
  functions to \<^verbatim>\<open>scipy.optimize.minimize\<close>. Every cell is modelled as a function of the
  values it reads. A pandas data frame of instruments is a list of rows (records), in index
  order. Floating-point numbers are modelled as reals; the special values \<open>inf\<close>, \<open>-inf\<close> and
  \<open>nan\<close>, the zero \<open>-0.0\<close> and overflow appear where the code treats them (the return
  computation). Python exceptions
  are values of a sum type, \<open>Inl\<close> carrying the exception.
\<close>

datatype py_error = KeyError | ZeroDivisionError | ValueError

text \<open>
  Python attaches a text to an exception. For the division of an integer by zero it is
  always \<^verbatim>\<open>division by zero\<close>; the texts of the other two name the missing key or the
  shapes that do not agree, which the exception values of the model do not carry.
\<close>

fun error_text :: "py_error \<Rightarrow> string option" where
  "error_text ZeroDivisionError = Some ''division by zero''"
| "error_text KeyError = None"
| "error_text ValueError = None"

subsection \<open>Python slicing\<close>

text \<open>
  \<^verbatim>\<open>s[i:j]\<close> with step 1: a negative bound counts from the end, and every bound is clamped
  to \<open>[0, len(s)]\<close>; an empty range gives the empty sequence and nothing raises.
\<close>

definition slice_bound :: "nat \<Rightarrow> int \<Rightarrow> nat" where
  "slice_bound n i = (if i < 0 then nat (max (int n + i) 0) else min (nat i) n)"

definition py_slice :: "'a list \<Rightarrow> int \<Rightarrow> int \<Rightarrow> 'a list" where
  "py_slice s i j =
     (let lo = slice_bound (length s) i; hi = slice_bound (length s) j
      in take (hi - lo) (drop lo s))"

subsection \<open>The universe: sector codes and the ESG filter\<close>

text \<open>
  \<^verbatim>\<open>df_esg\<close> has one row per requested RIC (its index, duplicates dropped), with the columns
  \<^verbatim>\<open>name\<close>, \<^verbatim>\<open>esg\<close>, \<^verbatim>\<open>Business Summary\<close> and \<^verbatim>\<open>nace\<close>. The classification is a
  string, empty when the provider has none, which is what the notebook's filter on the
  length of the code expects. A missing ESG score is \<open>nan\<close> in pandas, which compares
  false with \<^verbatim>\<open>>=\<close>; the model takes the scores that are present.
\<close>

record instrument =
  ric :: string
  name :: string
  esg :: real
  summary :: string
  nace :: string

record instrument_nace = instrument +
  nace_code :: string

record instrument_impact = instrument_nace +
  nace_impact :: real

text \<open>
  \<^verbatim>\<open>
  nace_code_list =[]
  for instr in ric_list:
      df_instr = df_esg.loc[instr]
      nace_code_list.append(df_instr['nace'][-6:-4])
  df_nace = pandas.DataFrame(data=[ric_list,nace_code_list],index=['ric','nace_code']).T.set_index('ric')
  df_esg_nace = pandas.concat([df_esg,df_nace],axis=1)[df_nace['nace_code'].map(len)>0]
  \<close>
  The loop visits the rows of \<^verbatim>\<open>df_esg\<close> by their index and the concatenation joins the
  new column on the same index, so the two together add one column to every row.
\<close>

definition nace_code_of :: "string \<Rightarrow> string" where
  "nace_code_of s = py_slice s (- 6) (- 4)"

definition nace_code_list :: "instrument list \<Rightarrow> string list" where
  "nace_code_list df_esg = map (\<lambda>df_instr. nace_code_of (nace df_instr)) df_esg"

definition concat_nace :: "instrument \<Rightarrow> string \<Rightarrow> instrument_nace" where
  "concat_nace r c =
     \<lparr>ric = ric r, name = name r, esg = esg r, summary = summary r, nace = nace r,
      nace_code = c\<rparr>"

definition df_esg_nace :: "instrument list \<Rightarrow> instrument_nace list" where
  "df_esg_nace df_esg =
     filter (\<lambda>r. length (nace_code r) > 0) (map2 concat_nace df_esg (nace_code_list df_esg))"

text \<open>
  \<^verbatim>\<open>
  esg_bound = 70
  df_esg_constraint = df_esg_nace[(df_esg_nace.esg >= esg_bound)].replace('','nan')
  K = len(df_esg_constraint.index)
  \<close>
  \<^verbatim>\<open>replace('','nan')\<close> rewrites every cell that is the empty string; the index (the RIC)
  and the numeric column are not touched. The global \<^verbatim>\<open>esg_bound\<close> is passed explicitly.
\<close>

definition esg_bound :: real where
  "esg_bound = 70"

definition replace_empty :: "string \<Rightarrow> string" where
  "replace_empty s = (if s = [] then ''nan'' else s)"

definition replace_row :: "instrument_nace \<Rightarrow> instrument_nace" where
  "replace_row r =
     r\<lparr>name := replace_empty (name r), summary := replace_empty (summary r),
       nace := replace_empty (nace r), nace_code := replace_empty (nace_code r)\<rparr>"

definition df_esg_constraint :: "real \<Rightarrow> instrument_nace list \<Rightarrow> instrument_nace list" where
  "df_esg_constraint bound df = map replace_row (filter (\<lambda>r. esg r \<ge> bound) df)"

text \<open>
  The optimisation universe is what the two cells compute in sequence from \<^verbatim>\<open>df_esg\<close>;
  \<open>K\<close> is its number of rows.
\<close>

definition universe :: "real \<Rightarrow> instrument list \<Rightarrow> instrument_nace list" where
  "universe bound df_esg = df_esg_constraint bound (df_esg_nace df_esg)"

definition K_of :: "instrument_nace list \<Rightarrow> nat" where
  "K_of df = length df"

subsection \<open>Return statistics\<close>

text \<open>
  A numeric data frame is its column labels and its rows, one row per period; every row
  has one cell per column. Its cells are double-precision floats: a finite value, one of
  the two zeros, \<open>inf\<close>, \<open>-inf\<close> or \<open>nan\<close>. \<open>Fin 0\<close> is the zero \<open>0.0\<close> and \<open>NZero\<close> is
  \<open>-0.0\<close>; the two compare equal in Python and divide differently. Finite results are
  kept exact (no rounding); a quotient whose magnitude reaches the overflow threshold of
  the format, \<open>2^1024 - 2^970\<close>, is an infinity.
\<close>

record 'a dataframe =
  columns :: "string list"
  rows :: "'a list list"

datatype fval = Fin real | NZero | PInf | NInf | NaN

definition negative :: "fval \<Rightarrow> bool" where
  "negative v = (case v of Fin r \<Rightarrow> r < 0 | NZero \<Rightarrow> True | NInf \<Rightarrow> True | _ \<Rightarrow> False)"

definition is_zero :: "fval \<Rightarrow> bool" where
  "is_zero v = (v = Fin 0 \<or> v = NZero)"

definition is_infinite :: "fval \<Rightarrow> bool" where
  "is_infinite v = (v = PInf \<or> v = NInf)"

definition is_finite :: "fval \<Rightarrow> bool" where
  "is_finite v = (case v of Fin _ \<Rightarrow> True | NZero \<Rightarrow> True | _ \<Rightarrow> False)"

definition inf_of :: "bool \<Rightarrow> fval" where
  "inf_of neg = (if neg then NInf else PInf)"

definition zero_of :: "bool \<Rightarrow> fval" where
  "zero_of neg = (if neg then NZero else Fin 0)"

definition overflow_threshold :: real where
  "overflow_threshold = 2 ^ 1024 - 2 ^ 970"

text \<open>
  Division of floats: \<open>nan\<close> in gives \<open>nan\<close> out; \<open>inf / inf\<close> and \<open>0 / 0\<close> are \<open>nan\<close>; a
  non-zero value over a zero is an infinity and a zero over a non-zero value is a zero,
  each with the sign that the two sign bits give. Subtracting 1 leaves \<open>inf\<close>, \<open>-inf\<close> and
  \<open>nan\<close> unchanged.
\<close>

definition fdiv :: "fval \<Rightarrow> fval \<Rightarrow> fval" where
  "fdiv a b =
     (let neg = (negative a \<noteq> negative b)
      in if a = NaN \<or> b = NaN then NaN
         else if is_infinite a then (if is_infinite b then NaN else inf_of neg)
         else if is_infinite b then zero_of neg
         else if is_zero b then (if is_zero a then NaN else inf_of neg)
         else if is_zero a then zero_of neg
         else (case (a, b) of
                 (Fin p, Fin q) \<Rightarrow>
                   if \<bar>p / q\<bar> \<ge> overflow_threshold then inf_of neg else Fin (p / q)
               | _ \<Rightarrow> NaN))"

definition fsub_one :: "fval \<Rightarrow> fval" where
  "fsub_one v = (case v of Fin q \<Rightarrow> Fin (q - 1) | NZero \<Rightarrow> Fin (- 1) | _ \<Rightarrow> v)"

text \<open>
  \<^verbatim>\<open>
  returns = timeseries_data.pct_change().replace(numpy.inf, numpy.nan).dropna()
  \<close>
  \<^verbatim>\<open>pct_change()\<close> computes \<^verbatim>\<open>data / data.shift(1) - 1\<close>: the first row has no predecessor
  and is \<open>nan\<close>. \<^verbatim>\<open>replace(numpy.inf, numpy.nan)\<close> rewrites the cells equal to \<open>inf\<close> (\<open>-inf\<close>
  is another value). \<^verbatim>\<open>dropna()\<close> keeps the rows without a \<open>nan\<close>.
\<close>

definition pct :: "fval \<Rightarrow> fval \<Rightarrow> fval" where
  "pct cur prev = fsub_one (fdiv cur prev)"

fun pct_change_rows :: "fval list list \<Rightarrow> fval list list" where
  "pct_change_rows [] = []"
| "pct_change_rows (r # rs) = map (\<lambda>_. NaN) r # map2 (map2 pct) rs (r # rs)"

definition pct_change :: "fval dataframe \<Rightarrow> fval dataframe" where
  "pct_change df = \<lparr>columns = columns df, rows = pct_change_rows (rows df)\<rparr>"

definition replace_inf_nan :: "fval dataframe \<Rightarrow> fval dataframe" where
  "replace_inf_nan df =
     \<lparr>columns = columns df, rows = map (map (\<lambda>v. if v = PInf then NaN else v)) (rows df)\<rparr>"

definition dropna :: "fval dataframe \<Rightarrow> fval dataframe" where
  "dropna df = \<lparr>columns = columns df, rows = filter (list_all (\<lambda>v. v \<noteq> NaN)) (rows df)\<rparr>"

definition returns :: "fval dataframe \<Rightarrow> fval dataframe" where
  "returns timeseries_data = dropna (replace_inf_nan (pct_change timeseries_data))"

text \<open>
  \<^verbatim>\<open>returns.sum()\<close>: the sum of every column over the rows, one entry per column (zeros
  when there is no row). The objectives below read a frame of finite returns.
\<close>

definition df_sum :: "real dataframe \<Rightarrow> real list" where
  "df_sum df = foldr (map2 (+)) (rows df) (map (\<lambda>_. 0) (columns df))"

subsection \<open>numpy.dot and the risk measure\<close>

text \<open>
  \<^verbatim>\<open>numpy.dot\<close> of two vectors is their inner product, of a matrix and a vector the vector
  of the inner products of the rows; shapes that do not agree raise \<^verbatim>\<open>ValueError\<close>. The
  covariance matrix is square: without rows it has no columns.
  \<^verbatim>\<open>
  def risk_measure(covMatrix, weights):
      return numpy.dot(weights, numpy.dot(covMatrix, weights))
  \<close>
\<close>

definition inner :: "real list \<Rightarrow> real list \<Rightarrow> real" where
  "inner xs ys = sum_list (map2 (*) xs ys)"

definition np_dot :: "real list \<Rightarrow> real list \<Rightarrow> py_error + real" where
  "np_dot xs ys = (if length xs = length ys then Inr (inner xs ys) else Inl ValueError)"

definition np_dot_mv :: "real list list \<Rightarrow> real list \<Rightarrow> py_error + real list" where
  "np_dot_mv m v =
     (if (case m of [] \<Rightarrow> v = [] | _ \<Rightarrow> list_all (\<lambda>r. length r = length v) m)
      then Inr (map (\<lambda>r. inner r v) m) else Inl ValueError)"

definition risk_measure :: "real list list \<Rightarrow> real list \<Rightarrow> py_error + real" where
  "risk_measure covMatrix weights =
     (case np_dot_mv covMatrix weights of
        Inl e \<Rightarrow> Inl e
      | Inr cw \<Rightarrow> np_dot weights cw)"

subsection \<open>The impact model\<close>

text \<open>
  \<^verbatim>\<open>nace_dict\<close> labels the NACE divisions; the impact table is built from its keys:
  \<^verbatim>\<open>
  nace_impact_dict ={key: 0 for key in nace_dict.keys()}
  nace_impact_dict['41']=10
  df_esg_constraint['nace_impact'] = df_esg_constraint['nace_code'].apply(lambda x: nace_impact_dict[x])
  \<close>
  Indexing a dictionary with a key it does not hold raises \<^verbatim>\<open>KeyError\<close>, which ends the
  \<^verbatim>\<open>apply\<close>.
\<close>

definition nace_dict :: "(string \<times> string) list" where
  "nace_dict =
    [(''01'', ''Crop and animal production, hunting and related service activities''),
     (''02'', ''Forestry and logging''),
     (''03'', ''Fishing and aquaculture''),
     (''05'', ''Mining of coal and lignite''),
     (''06'', ''Extraction of crude petroleum and natural gas''),
     (''07'', ''Mining of metal ores''),
     (''08'', ''Other mining and quarrying''),
     (''09'', ''Mining support service activities''),
     (''10'', ''Manufacture of food products''),
     (''11'', ''Manufacture of beverages''),
     (''12'', ''Manufacture of tobacco products''),
     (''13'', ''Manufacture of textiles''),
     (''14'', ''Manufacture of wearing apparel''),
     (''15'', ''Manufacture of leather and related products''),
     (''16'', ''Manufacture of wood and of products of wood and cork, except furniture; manufacture of articles of straw and plaiting materials''),
     (''17'', ''Manufacture of paper and paper products''),
     (''18'', ''Printing and reproduction of recorded media''),
     (''19'', ''Manufacture of coke and refined petroleum products''),
     (''20'', ''Manufacture of chemicals and chemical products''),
     (''21'', ''Manufacture of basic pharmaceutical products and pharmaceutical preparations''),
     (''22'', ''Manufacture of rubber and plastic products''),
     (''23'', ''Manufacture of other non-metallic mineral products''),
     (''24'', ''Manufacture of basic metals''),
     (''25'', ''Manufacture of fabricated metal products, except machinery and equipment''),
     (''26'', ''Manufacture of computer, electronic and optical products''),
     (''27'', ''Manufacture of electrical equipment''),
     (''28'', ''Manufacture of machinery and equipment n.e.c.''),
     (''29'', ''Manufacture of motor vehicles, trailers and semi-trailers''),
     (''30'', ''Manufacture of other transport equipment''),
     (''31'', ''Manufacture of furniture''),
     (''32'', ''Other manufacturing''),
     (''33'', ''Repair and installation of machinery and equipment''),
     (''35'', ''Electricity, gas, steam and air conditioning supply''),
     (''36'', ''Water collection, treatment and supply''),
     (''37'', ''Sewerage''),
     (''38'', ''Waste collection, treatment and disposal activities; materials recovery''),
     (''39'', ''Remediation activities and other waste management services''),
     (''41'', ''Construction of buildings''),
     (''42'', ''Civil engineering''),
     (''43'', ''Specialised construction activities''),
     (''45'', ''Wholesale and retail trade and repair of motor vehicles and motorcycles''),
     (''46'', ''Wholesale trade, except of motor vehicles and motorcycles''),
     (''47'', ''Retail trade, except of motor vehicles and motorcycles''),
     (''49'', ''Land transport and transport via pipelines''),
     (''50'', ''Water transport''),
     (''51'', ''Air transport''),
     (''52'', ''Warehousing and support activities for transportation''),
     (''53'', ''Postal and courier activities''),
     (''55'', ''Accommodation''),
     (''56'', ''Food and beverage service activities''),
     (''58'', ''Publishing activities''),
     (''59'', ''Motion picture, video and television programme production, sound recording and music publishing activities''),
     (''60'', ''Programming and broadcasting activities''),
     (''61'', ''Telecommunications''),
     (''62'', ''Computer programming, consultancy and related activities''),
     (''63'', ''Information service activities''),
     (''64'', ''Financial service activities, except insurance and pension funding''),
     (''65'', ''Insurance, reinsurance and pension funding, except compulsory social security''),
     (''66'', ''Activities auxiliary to financial services and insurance activities''),
     (''68'', ''Real estate activities''),
     (''69'', ''Legal and accounting activities''),
     (''70'', ''Activities of head offices; management consultancy activities''),
     (''71'', ''Architectural and engineering activities; technical testing and analysis''),
     (''72'', ''Scientific research and development ''),
     (''73'', ''Advertising and market research''),
     (''74'', ''Other professional, scientific and technical activities''),
     (''75'', ''Veterinary activities''),
     (''77'', ''Rental and leasing activities''),
     (''78'', ''Employment activities''),
     (''79'', ''Travel agency, tour operator and other reservation service and related activities''),
     (''80'', ''Security and investigation activities''),
     (''81'', ''Services to buildings and landscape activities''),
     (''82'', ''Office administrative, office support and other business support activities''),
     (''84'', ''Public administration and defence; compulsory social security''),
     (''85'', ''Education''),
     (''86'', ''Human health activities''),
     (''87'', ''Residential care activities''),
     (''88'', ''Social work activities without accommodation''),
     (''90'', ''Creative, arts and entertainment activities''),
     (''91'', ''Libraries, archives, museums and other cultural activities''),
     (''92'', ''Gambling and betting activities''),
     (''93'', ''Sports activities and amusement and recreation activities''),
     (''94'', ''Activities of membership organisations''),
     (''95'', ''Repair of computers and personal and household goods''),
     (''96'', ''Other personal service activities''),
     (''97'', ''Activities of households as employers of domestic personnel''),
     (''98'', ''Undifferentiated goods- and services-producing activities of private households for own use''),
     (''99'', ''Activities of extraterritorial organisations and bodies''),
     (''nan'', ''Others'')]"

definition nace_impact_dict :: "string \<rightharpoonup> real" where
  "nace_impact_dict = (map_of (map (\<lambda>key. (key, 0)) (map fst nace_dict)))(''41'' \<mapsto> 10)"

definition dict_index :: "('k \<rightharpoonup> 'v) \<Rightarrow> 'k \<Rightarrow> py_error + 'v" where
  "dict_index d k = (case d k of None \<Rightarrow> Inl KeyError | Some v \<Rightarrow> Inr v)"

fun apply_series :: "('a \<Rightarrow> py_error + 'b) \<Rightarrow> 'a list \<Rightarrow> py_error + 'b list" where
  "apply_series f [] = Inr []"
| "apply_series f (a # as) =
     (case f a of
        Inl e \<Rightarrow> Inl e
      | Inr b \<Rightarrow> (case apply_series f as of Inl e \<Rightarrow> Inl e | Inr bs \<Rightarrow> Inr (b # bs)))"

definition set_nace_impact :: "instrument_nace \<Rightarrow> real \<Rightarrow> instrument_impact" where
  "set_nace_impact r v =
     \<lparr>ric = ric r, name = name r, esg = esg r, summary = summary r, nace = nace r,
      nace_code = nace_code r, nace_impact = v\<rparr>"

definition add_nace_impact :: "instrument_nace list \<Rightarrow> py_error + instrument_impact list" where
  "add_nace_impact df =
     (case apply_series (\<lambda>x. dict_index nace_impact_dict x) (map nace_code df) of
        Inl e \<Rightarrow> Inl e
      | Inr ws \<Rightarrow> Inr (map2 set_nace_impact df ws))"

text \<open>
  \<^verbatim>\<open>
  impact_esg_score = lambda df: df['nace_impact']*(df['esg']-esg_bound)
  \<close>
\<close>

definition impact_esg_score :: "real \<Rightarrow> instrument_impact list \<Rightarrow> real list" where
  "impact_esg_score bound df = map (\<lambda>r. nace_impact r * (esg r - bound)) df"

subsection \<open>The objective functions\<close>

text \<open>
  The functions handed to the solver are the lambdas of the three calls:
  \<^verbatim>\<open>
  lambda x: risk_measure(covMatrix, x)
  lambda x: risk_measure(covMatrix, x) - 0.0002*numpy.dot(x, returns.sum())
            - 0.00002*numpy.dot(x, df_esg_constraint['esg'])
  lambda x: risk_measure(covMatrix, x) - 0.0002*numpy.dot(x, returns.sum())
            - 0.000004*numpy.dot(x, impact_esg_score(df_esg_constraint))
  \<close>
  They close over the covariance matrix, the frame of returns and the universe.
\<close>

definition mvp_objective :: "real list list \<Rightarrow> real list \<Rightarrow> py_error + real" where
  "mvp_objective covMatrix x = risk_measure covMatrix x"

definition esg_ret_objective ::
  "real list list \<Rightarrow> real dataframe \<Rightarrow> instrument_nace list \<Rightarrow> real list \<Rightarrow> py_error + real" where
  "esg_ret_objective covMatrix rets df x =
     (case risk_measure covMatrix x of
        Inl e \<Rightarrow> Inl e
      | Inr r \<Rightarrow>
          (case np_dot x (df_sum rets) of
             Inl e \<Rightarrow> Inl e
           | Inr a \<Rightarrow>
               (case np_dot x (map esg df) of
                  Inl e \<Rightarrow> Inl e
                | Inr s \<Rightarrow> Inr (r - 0.0002 * a - 0.00002 * s))))"

definition impact_esg_objective ::
  "real list list \<Rightarrow> real dataframe \<Rightarrow> real \<Rightarrow> instrument_impact list \<Rightarrow> real list \<Rightarrow> py_error + real" where
  "impact_esg_objective covMatrix rets bound df x =
     (case risk_measure covMatrix x of
        Inl e \<Rightarrow> Inl e
      | Inr r \<Rightarrow>
          (case np_dot x (df_sum rets) of
             Inl e \<Rightarrow> Inl e
           | Inr a \<Rightarrow>
               (case np_dot x (impact_esg_score bound df) of
                  Inl e \<Rightarrow> Inl e
                | Inr s \<Rightarrow> Inr (r - 0.0002 * a - 0.000004 * s))))"

subsection \<open>The three optimisations\<close>

text \<open>
  \<^verbatim>\<open>
  bounds = K * [(0, 1)]
  constraints = {'type': 'eq', 'fun': lambda weights: weights.sum() - 1}
  mvp = sco.minimize(lambda x: risk_measure(covMatrix, x),  # function to be minimized
                     K * [1 / K],  # initial guess
                     bounds=bounds,  # box constraints
                     constraints =constraints,  # equality constraints
                     )
  \<close>
  \<^verbatim>\<open>sco.minimize\<close> is scipy's; it is a parameter of the model, called with the arguments
  the notebook passes. Python evaluates the arguments before the call, and \<^verbatim>\<open>1 / K\<close>
  raises \<^verbatim>\<open>ZeroDivisionError\<close> when \<open>K\<close> is 0. The notebook reads only the field \<^verbatim>\<open>x\<close> of
  the result.
\<close>

record constraint =
  ctype :: string
  cfun :: "real list \<Rightarrow> real"

record opt_result =
  x :: "real list"
  success :: bool

type_synonym objective = "real list \<Rightarrow> py_error + real"

type_synonym minimizer =
  "objective \<Rightarrow> real list \<Rightarrow> (real \<times> real) list \<Rightarrow> constraint \<Rightarrow> py_error + opt_result"

definition bounds :: "nat \<Rightarrow> (real \<times> real) list" where
  "bounds K = replicate K (0, 1)"

definition constraints :: constraint where
  "constraints = \<lparr>ctype = ''eq'', cfun = (\<lambda>weights. sum_list weights - 1)\<rparr>"

definition initial_guess :: "nat \<Rightarrow> py_error + real list" where
  "initial_guess K = (if K = 0 then Inl ZeroDivisionError else Inr (replicate K (1 / real K)))"

definition mvp :: "minimizer \<Rightarrow> real list list \<Rightarrow> nat \<Rightarrow> py_error + opt_result" where
  "mvp minimize covMatrix K =
     (case initial_guess K of
        Inl e \<Rightarrow> Inl e
      | Inr x0 \<Rightarrow> minimize (mvp_objective covMatrix) x0 (bounds K) constraints)"

text \<open>
  \<^verbatim>\<open>
  esg_ret_mvp = sco.minimize(lambda x: risk_measure(covMatrix, x)
                     - 0.0002*numpy.dot(x, returns.sum())
                     - 0.00002*numpy.dot(x, df_esg_constraint['esg']),
                     K * [1 / K], bounds=bounds, constraints =constraints)
  \<close>
\<close>

definition esg_ret_mvp ::
  "minimizer \<Rightarrow> real list list \<Rightarrow> real dataframe \<Rightarrow> instrument_nace list \<Rightarrow> nat
     \<Rightarrow> py_error + opt_result" where
  "esg_ret_mvp minimize covMatrix rets df K =
     (case initial_guess K of
        Inl e \<Rightarrow> Inl e
      | Inr x0 \<Rightarrow> minimize (esg_ret_objective covMatrix rets df) x0 (bounds K) constraints)"

text \<open>
  \<^verbatim>\<open>
  impact_esg_mvp = sco.minimize(lambda x: risk_measure(covMatrix, x)
                     - 0.0002*numpy.dot(x, returns.sum())
                     - 0.000004*numpy.dot(x, impact_esg_score(df_esg_constraint)),
                     K * [1 / K], bounds=bounds, constraints =constraints)
  \<close>
\<close>

definition impact_esg_mvp ::
  "minimizer \<Rightarrow> real list list \<Rightarrow> real dataframe \<Rightarrow> real \<Rightarrow> instrument_impact list \<Rightarrow> nat
     \<Rightarrow> py_error + opt_result" where
  "impact_esg_mvp minimize covMatrix rets bound df K =
     (case initial_guess K of
        Inl e \<Rightarrow> Inl e
      | Inr x0 \<Rightarrow>
          minimize (impact_esg_objective covMatrix rets bound df) x0 (bounds K) constraints)"

text \<open>
  The region the arguments \<^verbatim>\<open>bounds\<close> and \<^verbatim>\<open>constraints\<close> describe to scipy: one pair of
  bounds per variable, and a constraint function that is zero (type \<^verbatim>\<open>eq\<close>) or
  non-negative (type \<^verbatim>\<open>ineq\<close>).
\<close>

definition constraint_holds :: "constraint \<Rightarrow> real list \<Rightarrow> bool" where
  "constraint_holds c w = (if ctype c = ''eq'' then cfun c w = 0 else cfun c w \<ge> 0)"

definition feasible :: "(real \<times> real) list \<Rightarrow> constraint \<Rightarrow> real list \<Rightarrow> bool" where
  "feasible bnds c w =
     (list_all2 (\<lambda>b wi. fst b \<le> wi \<and> wi \<le> snd b) bnds w \<and> constraint_holds c w)"

text \<open>
  A stand-in for the solver that answers with a fixed result whatever it is asked: two
  runs of a cell that differ only in the stand-in differ exactly when the cell's result is
  the solver's.
\<close>

definition fixed_minimizer :: "opt_result \<Rightarrow> minimizer" where
  "fixed_minimizer res = (\<lambda>f x0 bnds c. Inr res)"

subsection \<open>The objective as the specification words it\<close>

text \<open>
  Modelled from the spec: the notebook has no objective builder with coefficients as
  parameters, only the three lambdas with their constants. This is the specification of
  the objective composer, in index notation:
  \<open>risk(w) = w\<^sup>T C w\<close>, and
  \<open>objective(w) = risk(w) - returnCoef * (w \<cdot> totalReturn) - scoreCoef * (w \<cdot> scoreVector)\<close>,
  where \<open>totalReturn\<close> is the per-instrument sum of the period returns.
\<close>

definition risk_spec :: "real list list \<Rightarrow> real list \<Rightarrow> real" where
  "risk_spec C w = (\<Sum>i<length w. \<Sum>j<length w. w ! i * C ! i ! j * w ! j)"

definition dot_spec :: "real list \<Rightarrow> real list \<Rightarrow> real" where
  "dot_spec w v = (\<Sum>i<length w. w ! i * v ! i)"

definition total_return_spec :: "real dataframe \<Rightarrow> real list" where
  "total_return_spec rets =
     map (\<lambda>j. \<Sum>t<length (rows rets). rows rets ! t ! j) [0..<length (columns rets)]"

definition objective_spec ::
  "real list list \<Rightarrow> real list \<Rightarrow> real list \<Rightarrow> real \<Rightarrow> real \<Rightarrow> real list \<Rightarrow> real" where
  "objective_spec C totalReturn scoreVector returnCoef scoreCoef w =
     risk_spec C w - returnCoef * dot_spec w totalReturn - scoreCoef * dot_spec w scoreVector"

text \<open>Shapes: a square matrix of size \<open>K\<close>, and a frame whose rows fit its columns.\<close>

definition square :: "nat \<Rightarrow> real list list \<Rightarrow> bool" where
  "square K C = (length C = K \<and> list_all (\<lambda>r. length r = K) C)"

definition wf_frame :: "'a dataframe \<Rightarrow> bool" where
  "wf_frame df = list_all (\<lambda>r. length r = length (columns df)) (rows df)"

subsection \<open>Sample inputs\<close>

text \<open>
  A universe of four instruments: one passes both filters with sector 41, one has an ESG
  score below the bound, one has no classification string, and one sits exactly on the
  bound.
\<close>

definition example_df_esg :: "instrument list" where
  "example_df_esg =
     [\<lparr>ric = ''A.N'', name = ''Alpha'', esg = 85, summary = [],
       nace = ''Construction of buildings (NACE) (41.10)''\<rparr>,
      \<lparr>ric = ''B.N'', name = ''Beta'', esg = 60, summary = [],
       nace = ''Civil engineering (NACE) (42.11)''\<rparr>,
      \<lparr>ric = ''C.N'', name = ''Gamma'', esg = 90, summary = [], nace = []\<rparr>,
      \<lparr>ric = ''D.N'', name = [], esg = 70, summary = [],
       nace = ''Telecommunications (NACE) (61.10)''\<rparr>]"

text \<open>
  A filtered universe of two instruments, of sectors 41 and 62, and a raw universe whose
  only instrument carries a division code that the table of NACE divisions does not list.
\<close>

definition example_universe :: "instrument_nace list" where
  "example_universe =
     [\<lparr>ric = ''A.N'', name = ''Alpha'', esg = 85, summary = ''nan'',
       nace = ''Construction of buildings (NACE) (41.10)'', nace_code = ''41''\<rparr>,
      \<lparr>ric = ''E.N'', name = ''Epsilon'', esg = 92, summary = ''nan'',
       nace = ''Computer programming activities (NACE) (62.01)'', nace_code = ''62''\<rparr>]"

definition example_unlisted :: "instrument list" where
  "example_unlisted =
     [\<lparr>ric = ''F.N'', name = ''Phi'', esg = 80, summary = [],
       nace = ''Unlisted activity (NACE) (04.00)''\<rparr>]"

text \<open>
  Closing prices of two instruments over four days, with one price of zero; a series in
  which the zero price is \<open>-0.0\<close>; and a series in which a negative value follows a price
  of zero.
\<close>

definition example_prices :: "fval dataframe" where
  "example_prices =
     \<lparr>columns = [''A.N'', ''D.N''],
      rows = [[Fin 10, Fin 5], [Fin 0, Fin 5], [Fin 3, Fin 6], [Fin 6, Fin 3]]\<rparr>"

definition example_prices_negzero :: "fval dataframe" where
  "example_prices_negzero = \<lparr>columns = [''A.N''], rows = [[Fin 1], [NZero], [Fin 2]]\<rparr>"

definition example_prices_negative :: "fval dataframe" where
  "example_prices_negative = \<lparr>columns = [''A.N''], rows = [[Fin 10], [Fin 0], [Fin (- 1)]]\<rparr>"

text \<open>
  An identity covariance matrix and a frame of returns for two instruments; a raw universe
  that both filters empty; and a solver result that is not the single feasible point of a
  one-instrument problem.
\<close>

definition example_cov :: "real list list" where
  "example_cov = [[1, 0], [0, 1]]"

definition example_rets :: "real dataframe" where
  "example_rets =
     \<lparr>columns = [''A.N'', ''E.N''], rows = [[1 / 100, 2 / 100], [3 / 100, - 1 / 100]]\<rparr>"

definition example_low :: "instrument list" where
  "example_low =
     [\<lparr>ric = ''B.N'', name = ''Beta'', esg = 60, summary = [],
       nace = ''Civil engineering (NACE) (42.11)''\<rparr>,
      \<lparr>ric = ''C.N'', name = ''Gamma'', esg = 90, summary = [], nace = []\<rparr>]"

definition example_result :: opt_result where
  "example_result = \<lparr>x = [0], success = False\<rparr>"

section \<open>Properties\<close>

subsection \<open>Sector codes and the filtered universe\<close>

lemma map2_same: "map2 g xs (map f xs) = map (\<lambda>x. g x (f x)) xs"
  by (induction xs) auto

lemma nace_code_of_Nil [simp]: "nace_code_of [] = []"
  by (simp add: nace_code_of_def py_slice_def)

text \<open>
  The slice \<^verbatim>\<open>[-6:-4]\<close> has two characters when the string has at least six, one when it
  has five, and none otherwise.
\<close>

lemma length_nace_code_of:
  "length (nace_code_of s) = (if length s \<ge> 6 then 2 else if length s = 5 then 1 else 0)"
  by (auto simp: nace_code_of_def py_slice_def slice_bound_def Let_def)

lemma nace_code_of_example:
  "nace_code_of ''Construction of buildings (NACE) (41.10)'' = ''41''"
  by (simp add: nace_code_of_def py_slice_def slice_bound_def)

lemma df_esg_nace_eq:
  "df_esg_nace df = map (\<lambda>r. concat_nace r (nace_code_of (nace r)))
      (filter (\<lambda>r. nace_code_of (nace r) \<noteq> []) df)"
  by (simp add: df_esg_nace_def nace_code_list_def map2_same filter_map o_def concat_nace_def)

lemma universe_eq:
  "universe bound df =
     map (\<lambda>r. replace_row (concat_nace r (nace_code_of (nace r))))
       (filter (\<lambda>r. nace_code_of (nace r) \<noteq> [] \<and> esg r \<ge> bound) df)"
  unfolding universe_def df_esg_constraint_def df_esg_nace_eq
  by (simp add: filter_map o_def concat_nace_def)

lemma replace_row_sel:
  "ric (replace_row (concat_nace r c)) = ric r"
  "esg (replace_row (concat_nace r c)) = esg r"
  "c \<noteq> [] \<Longrightarrow> nace_code (replace_row (concat_nace r c)) = c"
  by (simp_all add: replace_row_def concat_nace_def replace_empty_def)

text \<open>The universe keeps the order of the rows; RIC, score and sector code of each row.\<close>

lemma universe_codes:
  "map (\<lambda>u. (ric u, esg u, nace_code u)) (universe bound df) =
     map (\<lambda>r. (ric r, esg r, nace_code_of (nace r)))
       (filter (\<lambda>r. nace_code_of (nace r) \<noteq> [] \<and> esg r \<ge> bound) df)"
  by (simp add: universe_eq o_def replace_row_sel cong: map_cong)

lemma universe_example:
  "map (\<lambda>u. (ric u, esg u, nace_code u)) (universe 70 example_df_esg) =
     [(''A.N'', 85, ''41''), (''D.N'', 70, ''61'')]"
  by (simp add: universe_codes example_df_esg_def nace_code_of_def py_slice_def slice_bound_def)

text \<open>
  Claim C8. An instrument \<open>r\<close> of \<^verbatim>\<open>df_esg\<close> (whose index holds every RIC once) is in the
  optimisation universe if and only if the slice \<^verbatim>\<open>[-6:-4]\<close> of its classification string
  is not empty and its ESG score is at least the bound; the sector code of its row in the
  universe is exactly that slice, of one or two characters.
\<close>

theorem universe_membership:
  assumes "distinct (map ric df_esg)" and "r \<in> set df_esg"
  shows "((\<exists>u \<in> set (universe bound df_esg). ric u = ric r) \<longleftrightarrow>
            nace_code_of (nace r) \<noteq> [] \<and> esg r \<ge> bound) \<and>
         (\<forall>u \<in> set (universe bound df_esg). ric u = ric r \<longrightarrow>
            nace_code u = nace_code_of (nace r) \<and> length (nace_code u) \<in> {1, 2})"
proof -
  have same: "r' = r" if "r' \<in> set df_esg" "ric r' = ric r" for r'
    using assms that by (meson distinct_map inj_onD)
  have mem: "u \<in> set (universe bound df_esg) \<longleftrightarrow>
      (\<exists>r' \<in> set df_esg. nace_code_of (nace r') \<noteq> [] \<and> esg r' \<ge> bound \<and>
         u = replace_row (concat_nace r' (nace_code_of (nace r'))))" for u
    by (auto simp: universe_eq)
  have len: "length (nace_code_of s) \<in> {1, 2}" if "nace_code_of s \<noteq> []" for s
    using that length_nace_code_of [of s] by (auto split: if_splits)
  have fwd: "nace_code_of (nace r) \<noteq> [] \<and> esg r \<ge> bound"
    if "\<exists>u \<in> set (universe bound df_esg). ric u = ric r"
  proof -
    from that obtain r' where "r' \<in> set df_esg" "nace_code_of (nace r') \<noteq> []"
      "esg r' \<ge> bound" "ric r' = ric r"
      by (auto simp: mem replace_row_sel)
    then show ?thesis using same by auto
  qed
  have bwd: "\<exists>u \<in> set (universe bound df_esg). ric u = ric r"
    if "nace_code_of (nace r) \<noteq> [] \<and> esg r \<ge> bound"
  proof -
    let ?u = "replace_row (concat_nace r (nace_code_of (nace r)))"
    have "?u \<in> set (universe bound df_esg)"
      unfolding mem using that assms(2) by blast
    moreover have "ric ?u = ric r" by (simp add: replace_row_sel)
    ultimately show ?thesis by blast
  qed
  have code: "nace_code u = nace_code_of (nace r) \<and> length (nace_code u) \<in> {1, 2}"
    if "u \<in> set (universe bound df_esg)" "ric u = ric r" for u
  proof -
    from that obtain r' where r': "r' \<in> set df_esg" "nace_code_of (nace r') \<noteq> []"
      "u = replace_row (concat_nace r' (nace_code_of (nace r')))" "ric r' = ric r"
      by (auto simp: mem replace_row_sel)
    then have "r' = r" using same by blast
    with r' show ?thesis using len by (simp add: replace_row_sel)
  qed
  show ?thesis using fwd bwd code by blast
qed

theorem universe_membership_witness:
  "(\<exists>u \<in> set (universe 70 example_df_esg). ric u = ''A.N'' \<and> nace_code u = ''41'') \<and>
   \<not> (\<exists>u \<in> set (universe 70 example_df_esg). ric u = ''B.N'') \<and>
   \<not> (\<exists>u \<in> set (universe 70 example_df_esg). ric u = ''C.N'')"
proof -
  have d: "distinct (map ric example_df_esg)"
    by (simp add: example_df_esg_def)
  have a: "example_df_esg ! 0 \<in> set example_df_esg"
    and b: "example_df_esg ! 1 \<in> set example_df_esg"
    and c: "example_df_esg ! 2 \<in> set example_df_esg"
    by (simp_all add: example_df_esg_def)
  have ca: "nace_code_of (nace (example_df_esg ! 0)) = ''41''"
    by (simp add: example_df_esg_def nace_code_of_def py_slice_def slice_bound_def)
  have ea: "esg (example_df_esg ! 0) = 85" "ric (example_df_esg ! 0) = ''A.N''"
    and eb: "esg (example_df_esg ! 1) = 60" "ric (example_df_esg ! 1) = ''B.N''"
    and ec: "nace (example_df_esg ! 2) = []" "ric (example_df_esg ! 2) = ''C.N''"
    by (simp_all add: example_df_esg_def)
  from universe_membership [OF d a, of 70] ca ea
  have "\<exists>u \<in> set (universe 70 example_df_esg). ric u = ''A.N'' \<and> nace_code u = ''41''"
    by auto
  moreover from universe_membership [OF d b, of 70] eb
  have "\<not> (\<exists>u \<in> set (universe 70 example_df_esg). ric u = ''B.N'')"
    by auto
  moreover from universe_membership [OF d c, of 70] ec
  have "\<not> (\<exists>u \<in> set (universe 70 example_df_esg). ric u = ''C.N'')"
    by auto
  ultimately show ?thesis by blast
qed

subsection \<open>The impact table and the impact-ESG score\<close>

lemma apply_series_Inr:
  "apply_series f xs = Inr ys \<Longrightarrow> list_all2 (\<lambda>a b. f a = Inr b) xs ys"
  by (induction xs arbitrary: ys) (auto split: sum.splits)

lemma apply_series_Inl:
  "apply_series f xs = Inl e \<Longrightarrow> \<exists>a \<in> set xs. f a = Inl e"
  by (induction xs) (auto split: sum.splits)

lemma apply_series_Inr_iff:
  "(\<exists>ys. apply_series f xs = Inr ys) \<longleftrightarrow> list_all (\<lambda>a. \<exists>b. f a = Inr b) xs"
  by (induction xs) (auto split: sum.splits)

lemma dict_index_Inr: "dict_index d k = Inr v \<longleftrightarrow> d k = Some v"
  by (simp add: dict_index_def split: option.splits)

lemma dict_index_Inl: "dict_index d k = Inl e \<longleftrightarrow> d k = None \<and> e = KeyError"
  by (auto simp: dict_index_def split: option.splits)

lemma map_of_zero: "map_of (map (\<lambda>key. (key, 0::real)) ks) c = (if c \<in> set ks then Some 0 else None)"
  by (induction ks) auto

lemma nace_keys_examples:
  "''41'' \<in> set (map fst nace_dict)"
  "''61'' \<in> set (map fst nace_dict)"
  "''62'' \<in> set (map fst nace_dict)"
  "''04'' \<notin> set (map fst nace_dict)"
  unfolding nace_dict_def by simp_all

lemma nace_impact_dict_eq:
  "nace_impact_dict c =
     (if c = ''41'' then Some 10 else if c \<in> set (map fst nace_dict) then Some 0 else None)"
  unfolding nace_impact_dict_def by (simp only: map_of_zero fun_upd_apply)

lemma nace_impact_dict_examples:
  "nace_impact_dict ''41'' = Some 10"
  "nace_impact_dict ''61'' = Some 0"
  "nace_impact_dict ''62'' = Some 0"
  "nace_impact_dict ''04'' = None"
  using nace_keys_examples by (simp_all only: nace_impact_dict_eq) simp_all

lemma add_nace_impact_Inr:
  assumes "add_nace_impact df = Inr dfi"
  shows "list_all2 (\<lambda>r ri. nace_impact_dict (nace_code r) = Some (nace_impact ri) \<and>
            ri = set_nace_impact r (nace_impact ri)) df dfi"
proof -
  from assms obtain ws where ws: "apply_series (dict_index nace_impact_dict) (map nace_code df) = Inr ws"
    and dfi: "dfi = map2 set_nace_impact df ws"
    by (auto simp: add_nace_impact_def split: sum.splits)
  from apply_series_Inr [OF ws]
  have "list_all2 (\<lambda>r w. nace_impact_dict (nace_code r) = Some w) df ws"
    by (simp add: list_all2_map1 dict_index_Inr)
  then show ?thesis unfolding dfi
    by (induction rule: list_all2_induct) (auto simp: set_nace_impact_def)
qed

lemma add_nace_impact_Inl:
  "add_nace_impact df = Inl e \<Longrightarrow> e = KeyError \<and> (\<exists>r \<in> set df. nace_impact_dict (nace_code r) = None)"
  by (auto simp: add_nace_impact_def dict_index_Inl split: sum.splits dest!: apply_series_Inl)

lemma add_nace_impact_example:
  "add_nace_impact example_universe =
     Inr (map2 set_nace_impact example_universe [10, 0])"
  by (simp add: add_nace_impact_def example_universe_def dict_index_def nace_impact_dict_examples)

text \<open>
  Claim C9. Once the impact weights are attached, the impact-ESG score of every instrument
  is the impact weight that the table gives for its sector code, times the ESG score minus
  the lower bound. An ESG score of 85 with bound 70 and impact weight 10 scores 150; an
  impact weight of 0 scores 0 whatever the ESG score and the bound.
\<close>

theorem impact_esg_score_formula:
  assumes "add_nace_impact df = Inr dfi"
  shows "list_all2 (\<lambda>r s. \<exists>wgt. nace_impact_dict (nace_code r) = Some wgt \<and> s = wgt * (esg r - bound))
           df (impact_esg_score bound dfi) \<and>
         impact_esg_score 70 [r1\<lparr>esg := 85, nace_impact := 10\<rparr>] = [150] \<and>
         impact_esg_score bound [r2\<lparr>nace_impact := 0\<rparr>] = [0]"
proof -
  have "list_all2 (\<lambda>r ri. \<exists>wgt. nace_impact_dict (nace_code r) = Some wgt \<and>
          nace_impact ri * (esg ri - bound) = wgt * (esg r - bound)) df dfi"
    using add_nace_impact_Inr [OF assms]
    by (rule list_all2_mono) (auto simp: set_nace_impact_def dest: arg_cong [where f = esg])
  then show ?thesis
    by (simp add: impact_esg_score_def list_all2_map2)
qed

theorem impact_esg_score_formula_witness:
  "\<exists>dfi. add_nace_impact example_universe = Inr dfi \<and> impact_esg_score 70 dfi = [150, 0]"
proof -
  let ?dfi = "map2 set_nace_impact example_universe [10, 0]"
  have h: "add_nace_impact example_universe = Inr ?dfi"
    by (rule add_nace_impact_example)
  have len: "length (impact_esg_score 70 ?dfi) = 2"
    by (simp add: impact_esg_score_def example_universe_def)
  from impact_esg_score_formula [OF h, of 70]
  have "list_all2 (\<lambda>r s. \<exists>wgt. nace_impact_dict (nace_code r) = Some wgt \<and> s = wgt * (esg r - 70))
           example_universe (impact_esg_score 70 ?dfi)"
    by blast
  then have "impact_esg_score 70 ?dfi = [150, 0]"
    by (auto simp: example_universe_def list_all2_Cons1 nace_impact_dict_examples)
  with h show ?thesis by blast
qed


lemma universe_unlisted:
  "universe 70 example_unlisted =
     [\<lparr>ric = ''F.N'', name = ''Phi'', esg = 80, summary = ''nan'',
       nace = ''Unlisted activity (NACE) (04.00)'', nace_code = ''04''\<rparr>]"
  by (simp add: universe_eq example_unlisted_def nace_code_of_def py_slice_def slice_bound_def
      replace_row_def concat_nace_def replace_empty_def)

text \<open>
  Claim C6 says that a sector code absent from the impact table is given the impact
  weight 0 without an error. The table is indexed directly: an instrument whose
  classification string ends in \<^verbatim>\<open>(04.00)\<close> passes both filters with the sector code
  \<^verbatim>\<open>04\<close>, which the table does not hold, and attaching the impact weights raises
  \<^verbatim>\<open>KeyError\<close>.
\<close>

theorem missing_sector_counterexample:
  "map nace_code (universe 70 example_unlisted) = [''04''] \<and>
   nace_impact_dict ''04'' = None \<and>
   add_nace_impact (universe 70 example_unlisted) = Inl KeyError"
  by (simp add: universe_unlisted add_nace_impact_def dict_index_def nace_impact_dict_examples)

text \<open>
  Claim C6, amended. Attaching the impact weights raises \<^verbatim>\<open>KeyError\<close> exactly when some
  instrument has a sector code that is not a key of \<^verbatim>\<open>nace_dict\<close>. When every sector code
  is a key, it succeeds, and every instrument gets the weight 0, except those of sector
  41, which get 10: the default 0 is the table's entry for every listed sector.
\<close>

theorem nace_impact_lookup:
  "(add_nace_impact df = Inl KeyError \<longleftrightarrow>
      (\<exists>r \<in> set df. nace_code r \<notin> set (map fst nace_dict))) \<and>
   ((\<forall>r \<in> set df. nace_code r \<in> set (map fst nace_dict)) \<longrightarrow>
      (\<exists>dfi. add_nace_impact df = Inr dfi \<and>
         list_all2 (\<lambda>r ri. nace_impact ri = (if nace_code r = ''41'' then 10 else 0)) df dfi))"
proof -
  have none: "nace_impact_dict c = None \<longleftrightarrow> c \<notin> set (map fst nace_dict)" for c
    using nace_keys_examples(1) by (auto simp only: nace_impact_dict_eq split: if_splits)
  have val: "v = (if c = ''41'' then 10 else 0)" if "nace_impact_dict c = Some v" for c v
    using that by (auto simp only: nace_impact_dict_eq split: if_splits)
  have A: "add_nace_impact df = Inl KeyError \<longleftrightarrow>
      (\<exists>r \<in> set df. nace_code r \<notin> set (map fst nace_dict))"
  proof
    assume "add_nace_impact df = Inl KeyError"
    from add_nace_impact_Inl [OF this] show "\<exists>r \<in> set df. nace_code r \<notin> set (map fst nace_dict)"
      by (simp only: none)
  next
    assume "\<exists>r \<in> set df. nace_code r \<notin> set (map fst nace_dict)"
    then obtain r where r: "r \<in> set df" "nace_impact_dict (nace_code r) = None"
      by (auto simp only: none)
    show "add_nace_impact df = Inl KeyError"
    proof (cases "add_nace_impact df")
      case (Inl e)
      with add_nace_impact_Inl show ?thesis by blast
    next
      case (Inr dfi)
      from add_nace_impact_Inr [OF this] r show ?thesis
        by (auto simp: list_all2_conv_all_nth in_set_conv_nth)
    qed
  qed
  have B: "\<exists>dfi. add_nace_impact df = Inr dfi \<and>
         list_all2 (\<lambda>r ri. nace_impact ri = (if nace_code r = ''41'' then 10 else 0)) df dfi"
    if all: "\<forall>r \<in> set df. nace_code r \<in> set (map fst nace_dict)"
  proof (cases "add_nace_impact df")
    case (Inl e)
    with add_nace_impact_Inl [OF Inl] all show ?thesis
      by (auto simp only: none)
  next
    case (Inr dfi)
    have "list_all2 (\<lambda>r ri. nace_impact ri = (if nace_code r = ''41'' then 10 else 0)) df dfi"
      using add_nace_impact_Inr [OF Inr]
      by (rule list_all2_mono) (use val in blast)
    with Inr show ?thesis by blast
  qed
  show ?thesis using A B by blast
qed

theorem nace_impact_lookup_witness:
  "\<exists>dfi. add_nace_impact example_universe = Inr dfi \<and> map nace_impact dfi = [10, 0]"
proof -
  have all: "\<forall>r \<in> set example_universe. nace_code r \<in> set (map fst nace_dict)"
    using nace_keys_examples by (simp add: example_universe_def)
  with nace_impact_lookup [of example_universe]
  obtain dfi where dfi: "add_nace_impact example_universe = Inr dfi"
    "list_all2 (\<lambda>r ri. nace_impact ri = (if nace_code r = ''41'' then 10 else 0)) example_universe dfi"
    by blast
  from dfi(2) have "map nace_impact dfi = [10, 0]"
    by (auto simp: example_universe_def list_all2_Cons1)
  with dfi(1) show ?thesis by auto
qed

lemma inner_nonneg:
  "length w = length s \<Longrightarrow> list_all (\<lambda>a. a \<ge> 0) w \<Longrightarrow> list_all (\<lambda>a. a \<ge> 0) s \<Longrightarrow> inner w s \<ge> 0"
  unfolding inner_def
  by (induction w s rule: list_induct2) auto

lemma universe_esg: "list_all (\<lambda>r. esg r \<ge> bound) (universe bound df)"
  by (simp add: universe_eq list_all_iff replace_row_sel)

text \<open>
  Claim C10. When the impact weights are attached to the universe filtered with the bound
  70, every instrument has an ESG score of at least 70 and a non-negative impact weight,
  so every impact-ESG score is non-negative, and so is the impact-ESG score of every
  portfolio with non-negative weights (the inner product with the scores).
\<close>

theorem impact_esg_nonneg:
  assumes "add_nace_impact (universe esg_bound df_esg) = Inr dfi"
  shows "list_all (\<lambda>r. esg r \<ge> 70) dfi \<and>
         list_all (\<lambda>ri. nace_impact ri \<ge> 0) dfi \<and>
         list_all (\<lambda>s. s \<ge> 0) (impact_esg_score esg_bound dfi) \<and>
         (\<forall>w. length w = length dfi \<and> list_all (\<lambda>wi. wi \<ge> 0) w \<longrightarrow>
            (\<exists>v. np_dot w (impact_esg_score esg_bound dfi) = Inr v \<and> v \<ge> 0))"
proof -
  have val: "v \<ge> 0" if "nace_impact_dict c = Some v" for c v
    using that by (auto simp only: nace_impact_dict_eq split: if_splits)
  have rows: "list_all2 (\<lambda>r ri. esg ri = esg r \<and> nace_impact ri \<ge> 0) (universe esg_bound df_esg) dfi"
    using add_nace_impact_Inr [OF assms]
    by (rule list_all2_mono) (auto simp: set_nace_impact_def dest: val arg_cong [where f = esg])
  have each: "esg ri \<ge> 70 \<and> nace_impact ri \<ge> 0" if "ri \<in> set dfi" for ri
  proof -
    from that obtain i where i: "i < length dfi" "dfi ! i = ri"
      by (auto simp: in_set_conv_nth)
    let ?r = "universe esg_bound df_esg ! i"
    from rows i have "?r \<in> set (universe esg_bound df_esg)"
      "esg ri = esg ?r" "nace_impact ri \<ge> 0"
      by (auto simp: list_all2_conv_all_nth)
    moreover have "esg r \<ge> esg_bound" if "r \<in> set (universe esg_bound df_esg)" for r
      using universe_esg [of esg_bound df_esg] that by (simp add: list_all_iff)
    ultimately show ?thesis by (simp add: esg_bound_def)
  qed
  have scores: "list_all (\<lambda>s. s \<ge> 0) (impact_esg_score esg_bound dfi)"
    using each by (auto simp: impact_esg_score_def list_all_iff esg_bound_def)
  have dot: "\<exists>v. np_dot w (impact_esg_score esg_bound dfi) = Inr v \<and> v \<ge> 0"
    if "length w = length dfi \<and> list_all (\<lambda>wi. wi \<ge> 0) w" for w
  proof -
    have "length w = length (impact_esg_score esg_bound dfi)"
      using that by (simp add: impact_esg_score_def)
    with that scores show ?thesis
      by (simp add: np_dot_def inner_nonneg)
  qed
  show ?thesis using each scores dot by (simp add: list_all_iff)
qed

theorem impact_esg_nonneg_witness:
  "\<exists>dfi v. add_nace_impact (universe esg_bound example_df_esg) = Inr dfi \<and>
     map nace_code dfi = [''41'', ''61''] \<and>
     np_dot [1 / 4, 3 / 4] (impact_esg_score esg_bound dfi) = Inr v \<and> v \<ge> 0"
proof -
  have "map (\<lambda>t. snd (snd t)) (map (\<lambda>u. (ric u, esg u, nace_code u)) (universe 70 example_df_esg))
      = [''41'', ''61'']"
    by (simp only: universe_example) simp
  then have u: "map nace_code (universe esg_bound example_df_esg) = [''41'', ''61'']"
    by (simp add: esg_bound_def o_def)
  then obtain a b where ab: "universe esg_bound example_df_esg = [a, b]"
    "nace_code a = ''41''" "nace_code b = ''61''"
    by auto
  let ?dfi = "[set_nace_impact a 10, set_nace_impact b 0]"
  have h: "add_nace_impact (universe esg_bound example_df_esg) = Inr ?dfi"
    by (simp add: ab add_nace_impact_def dict_index_def nace_impact_dict_examples)
  from impact_esg_nonneg [OF h]
  have "\<exists>v. np_dot [1 / 4, 3 / 4] (impact_esg_score esg_bound ?dfi) = Inr v \<and> v \<ge> 0"
    by simp
  moreover have "map nace_code ?dfi = [''41'', ''61'']"
    by (simp add: set_nace_impact_def ab)
  ultimately show ?thesis using h by auto
qed

subsection \<open>Infinite values in the returns\<close>

lemma pct_change_rows_cells:
  assumes "row \<in> set (pct_change_rows rs)" and "v \<in> set row"
  shows "v = NaN \<or> (\<exists>cur prev. cur \<in> \<Union> (set ` set rs) \<and> prev \<in> \<Union> (set ` set rs) \<and>
           v = pct cur prev)"
proof (cases rs)
  case Nil
  with assms show ?thesis by simp
next
  case (Cons r rs')
  with assms(1) have "row = map (\<lambda>_. NaN) r \<or> row \<in> set (map2 (map2 pct) rs' (r # rs'))"
    by simp
  then show ?thesis
  proof
    assume "row = map (\<lambda>_. NaN) r"
    with assms(2) show ?thesis by auto
  next
    assume "row \<in> set (map2 (map2 pct) rs' (r # rs'))"
    then obtain a b where ab: "(a, b) \<in> set (zip rs' (r # rs'))" "row = map2 pct a b"
      by auto
    with assms(2) obtain c p where cp: "(c, p) \<in> set (zip a b)" "v = pct c p"
      by auto
    from ab(1) have "a \<in> set rs'" "b \<in> set (r # rs')"
      by (auto dest: set_zip_leftD set_zip_rightD)
    moreover from cp(1) have "c \<in> set a" "p \<in> set b"
      by (auto dest: set_zip_leftD set_zip_rightD)
    ultimately show ?thesis using cp(2) Cons by auto
  qed
qed

lemma replace_dropna_rows:
  "filter (list_all (\<lambda>v. v \<noteq> NaN)) (map (map (\<lambda>v. if v = PInf then NaN else v)) R) =
   filter (list_all (\<lambda>v. v \<noteq> NaN \<and> v \<noteq> PInf)) R"
proof (induction R)
  case Nil
  show ?case by simp
next
  case (Cons r R)
  have iff: "list_all (\<lambda>v. v \<noteq> NaN) (map (\<lambda>v. if v = PInf then NaN else v) r) \<longleftrightarrow>
        list_all (\<lambda>v. v \<noteq> NaN \<and> v \<noteq> PInf) r"
    by (auto simp: list_all_iff)
  have same: "map (\<lambda>v. if v = PInf then NaN else v) r = r"
    if "list_all (\<lambda>v. v \<noteq> NaN \<and> v \<noteq> PInf) r"
    using that by (auto simp: list_all_iff intro: map_idI)
  show ?case using Cons iff same by auto
qed

lemma rows_returns:
  "rows (returns df) =
     filter (list_all (\<lambda>v. v \<noteq> NaN \<and> v \<noteq> PInf)) (pct_change_rows (rows df))"
  by (simp add: returns_def dropna_def replace_inf_nan_def pct_change_def replace_dropna_rows)

lemma columns_returns: "columns (returns df) = columns df"
  by (simp add: returns_def dropna_def replace_inf_nan_def pct_change_def)

text \<open>
  The periods kept in \<^verbatim>\<open>returns\<close> are the periods of the percentage change that hold
  neither \<open>nan\<close> nor \<open>inf\<close>: every \<open>inf\<close> becomes the missing marker and its period is
  dropped.
\<close>

lemma returns_no_positive_infinity:
  "list_all (list_all (\<lambda>v. v \<noteq> PInf \<and> v \<noteq> NaN)) (rows (returns df))"
  by (auto simp: rows_returns list_all_iff)

lemma threshold_large: "1000 < overflow_threshold"
  by (simp add: overflow_threshold_def)

lemma pct_example_values:
  "pct (Fin 0) (Fin 10) = Fin (- 1)"
  "pct (Fin 3) (Fin 0) = PInf"
  "pct NZero (Fin 1) = Fin (- 1)"
  "pct (Fin 2) NZero = NInf"
  "pct (Fin (- 1)) (Fin 0) = NInf"
  "pct (Fin 0) (Fin 0) = NaN"
  by (simp_all add: pct_def fdiv_def fsub_one_def negative_def is_zero_def is_infinite_def
      inf_of_def zero_of_def)

lemma pct_overflow: "pct (Fin (2 ^ 1023)) (Fin (1 / 2)) = PInf"
  by (simp add: pct_def fdiv_def fsub_one_def negative_def is_zero_def is_infinite_def
      inf_of_def overflow_threshold_def)

text \<open>
  A return of \<open>-inf\<close> needs a sign bit among the prices: a negative price or the zero
  \<open>-0.0\<close>. Without one, every value of \<^verbatim>\<open>returns\<close> is finite.
\<close>

lemma pct_unsigned:
  assumes "\<not> negative cur" and "\<not> negative prev"
  shows "pct cur prev \<noteq> NInf"
proof -
  have "fdiv cur prev \<noteq> NInf \<and> fdiv cur prev \<noteq> NZero"
    using assms
    by (auto simp: fdiv_def Let_def inf_of_def zero_of_def split: fval.splits)
  then show ?thesis
    by (auto simp: pct_def fsub_one_def split: fval.splits)
qed

lemma returns_finite_unsigned:
  assumes "list_all (list_all (\<lambda>p. \<not> negative p)) (rows df)"
  shows "list_all (list_all is_finite) (rows (returns df))"
proof -
  have "is_finite v" if "row \<in> set (rows (returns df))" "v \<in> set row" for row v
  proof -
    from that have row: "row \<in> set (pct_change_rows (rows df))"
      and v: "v \<noteq> NaN" "v \<noteq> PInf"
      by (auto simp: rows_returns list_all_iff)
    from pct_change_rows_cells [OF row that(2)] v(1)
    obtain cur prev where "cur \<in> \<Union> (set ` set (rows df))" "prev \<in> \<Union> (set ` set (rows df))"
      "v = pct cur prev"
      by blast
    moreover from this(1,2) assms have "\<not> negative cur" "\<not> negative prev"
      by (auto simp: list_all_iff)
    ultimately have "v \<noteq> NInf" by (simp add: pct_unsigned)
    with v show ?thesis by (cases v) (simp_all add: is_finite_def)
  qed
  then show ?thesis by (auto simp: list_all_iff)
qed

lemma returns_example:
  "rows (pct_change example_prices) =
     [[NaN, NaN], [Fin (- 1), Fin 0], [PInf, Fin (1 / 5)], [Fin 1, Fin (- 1 / 2)]] \<and>
   rows (returns example_prices) = [[Fin (- 1), Fin 0], [Fin 1, Fin (- 1 / 2)]]"
  using threshold_large
  by (simp add: rows_returns pct_change_def example_prices_def pct_def fdiv_def fsub_one_def
      negative_def is_zero_def is_infinite_def inf_of_def zero_of_def)

text \<open>
  Claim C7 says that every infinite value that a division by a zero price produces is
  turned into the missing marker and its period dropped, so that no infinite value
  reaches the covariance computation. \<^verbatim>\<open>replace(numpy.inf, numpy.nan)\<close> rewrites \<open>inf\<close> and
  leaves \<open>-inf\<close>. For the closing prices 1.0, -0.0, 2.0 the percentage change is \<open>nan\<close>,
  -1.0, \<open>-inf\<close>: the division of 2.0 by the zero price -0.0 gives \<open>-inf\<close>, which is not
  rewritten, and its period stays in \<^verbatim>\<open>returns\<close>. The prices 10, 0, -1 end the same way.
\<close>

theorem returns_keeps_negative_infinity:
  "rows (pct_change example_prices_negzero) = [[NaN], [Fin (- 1)], [NInf]] \<and>
   rows (returns example_prices_negzero) = [[Fin (- 1)], [NInf]] \<and>
   rows (returns example_prices_negative) = [[Fin (- 1)], [NInf]] \<and>
   list_ex (list_ex is_infinite) (rows (returns example_prices_negzero))"
  by (simp add: rows_returns pct_change_def example_prices_negzero_def example_prices_negative_def
      pct_example_values is_infinite_def)

subsection \<open>The objectives against their specification\<close>

lemma inner_dot_spec: "length w = length v \<Longrightarrow> inner w v = dot_spec w v"
  by (simp add: inner_def dot_spec_def sum_list_sum_nth atLeast0LessThan)

lemma np_dot_Inr: "length w = length v \<Longrightarrow> np_dot w v = Inr (dot_spec w v)"
  by (simp add: np_dot_def inner_dot_spec)

lemma np_dot_mv_Inr:
  assumes "square (length w) C"
  shows "np_dot_mv C w = Inr (map (\<lambda>r. inner r w) C)"
  using assms by (cases C) (auto simp: np_dot_mv_def square_def)

lemma risk_measure_Inr:
  assumes "square (length w) C"
  shows "risk_measure C w = Inr (risk_spec C w)"
proof -
  have len: "length C = length w" and row: "\<And>i. i < length w \<Longrightarrow> length (C ! i) = length w"
    using assms by (auto simp: square_def list_all_length)
  have "dot_spec w (map (\<lambda>r. inner r w) C) = (\<Sum>i<length w. w ! i * dot_spec (C ! i) w)"
    unfolding dot_spec_def [of w] using len row
    by (intro sum.cong refl) (simp add: inner_dot_spec)
  also have "\<dots> = risk_spec C w"
    unfolding risk_spec_def dot_spec_def
    by (intro sum.cong refl) (simp add: sum_distrib_left row mult.assoc)
  finally show ?thesis
    using len by (simp add: risk_measure_def np_dot_mv_Inr [OF assms] np_dot_Inr)
qed

lemma foldr_map2_add:
  assumes "\<forall>r \<in> set rs. length r = n"
  shows "foldr (map2 (+)) rs (replicate n (0::real)) =
           map (\<lambda>j. \<Sum>t<length rs. rs ! t ! j) [0..<n]"
  using assms
proof (induction rs)
  case Nil
  show ?case by (simp add: map_replicate_const)
next
  case (Cons r rs)
  then have IH: "foldr (map2 (+)) rs (replicate n 0) = map (\<lambda>j. \<Sum>t<length rs. rs ! t ! j) [0..<n]"
    and len: "length r = n"
    by auto
  show ?case
    using len by (intro nth_equalityI) (simp_all add: IH sum.lessThan_Suc_shift del: sum.lessThan_Suc)
qed

lemma df_sum_spec: "wf_frame rets \<Longrightarrow> df_sum rets = total_return_spec rets"
  unfolding df_sum_def total_return_spec_def wf_frame_def
  using foldr_map2_add [of "rows rets" "length (columns rets)"]
  by (simp add: map_replicate_const list_all_iff)

lemma length_total_return_spec: "length (total_return_spec rets) = length (columns rets)"
  by (simp add: total_return_spec_def)

text \<open>
  Claim C2. For a weight vector \<open>w\<close>, a square covariance matrix and score vectors of the
  same size, the objective of the ESG-balanced problem and the objective of the
  impact-ESG-balanced problem evaluate (without an error) to
  \<open>w\<^sup>T C w - returnCoef * (w \<cdot> totalReturn) - scoreCoef * (w \<cdot> scoreVector)\<close>, with
  \<open>totalReturn\<close> the per-instrument sum of the period returns, the return coefficient
  0.0002 and the score coefficients 0.00002 and 0.000004; the objective of the
  minimum-volatility problem is the case in which both coefficients are zero, which is the
  pure risk measure \<open>w\<^sup>T C w\<close>.
\<close>

theorem objective_composition:
  assumes "square (length w) covMatrix" and "wf_frame rets"
    and "length (columns rets) = length w"
    and "length df = length w" and "length dfi = length w"
  shows "esg_ret_objective covMatrix rets df w =
           Inr (objective_spec covMatrix (total_return_spec rets) (map esg df) 0.0002 0.00002 w) \<and>
         impact_esg_objective covMatrix rets bound dfi w =
           Inr (objective_spec covMatrix (total_return_spec rets) (impact_esg_score bound dfi)
                  0.0002 0.000004 w) \<and>
         mvp_objective covMatrix w = Inr (objective_spec covMatrix totalReturn scoreVector 0 0 w) \<and>
         objective_spec covMatrix totalReturn scoreVector 0 0 w = risk_spec covMatrix w"
proof -
  note risk = risk_measure_Inr [OF assms(1)]
  have ret: "np_dot w (df_sum rets) = Inr (dot_spec w (total_return_spec rets))"
    using assms(2,3) by (simp add: df_sum_spec np_dot_Inr length_total_return_spec)
  have esg: "np_dot w (map esg df) = Inr (dot_spec w (map esg df))"
    using assms(4) by (simp add: np_dot_Inr)
  have imp: "np_dot w (impact_esg_score bound dfi) = Inr (dot_spec w (impact_esg_score bound dfi))"
    using assms(5) by (simp add: np_dot_Inr impact_esg_score_def)
  show ?thesis
    by (simp add: esg_ret_objective_def impact_esg_objective_def mvp_objective_def
        objective_spec_def risk ret esg imp)
qed

lemma total_return_example: "total_return_spec example_rets = [4 / 100, 1 / 100]"
  by (simp add: total_return_spec_def example_rets_def upt_rec numeral_2_eq_2)

lemma objective_spec_example:
  "objective_spec example_cov [4 / 100, 1 / 100] [85, 92] 0.0002 0.00002 [1 / 2, 1 / 2] = 0.498225"
  by (simp add: objective_spec_def risk_spec_def dot_spec_def example_cov_def numeral_2_eq_2)

theorem objective_composition_witness:
  "esg_ret_objective example_cov example_rets example_universe [1 / 2, 1 / 2] = Inr 0.498225 \<and>
   mvp_objective example_cov [1 / 2, 1 / 2] = Inr (1 / 2)"
proof -
  have sq: "square (length [1 / 2, 1 / 2 :: real]) example_cov"
    by (simp add: square_def example_cov_def)
  have wf: "wf_frame example_rets"
    by (simp add: wf_frame_def example_rets_def)
  have c: "length (columns example_rets) = length [1 / 2, 1 / 2 :: real]"
    by (simp add: example_rets_def)
  have l: "length example_universe = length [1 / 2, 1 / 2 :: real]"
    by (simp add: example_universe_def)
  have e: "map esg example_universe = [85, 92]"
    by (simp add: example_universe_def)
  have li: "length (map2 set_nace_impact example_universe [10, 0]) = length [1 / 2, 1 / 2 :: real]"
    by (simp add: example_universe_def)
  note T = objective_composition [OF sq wf c l li, of 70 "[]" "[]"]
  have r: "risk_spec example_cov [1 / 2, 1 / 2] = 1 / 2"
    by (simp add: risk_spec_def example_cov_def numeral_2_eq_2)
  from T have "esg_ret_objective example_cov example_rets example_universe [1 / 2, 1 / 2] =
      Inr (objective_spec example_cov (total_return_spec example_rets) (map esg example_universe)
             0.0002 0.00002 [1 / 2, 1 / 2])"
    by (rule conjunct1)
  then have A: "esg_ret_objective example_cov example_rets example_universe [1 / 2, 1 / 2] =
      Inr 0.498225"
    by (simp only: total_return_example e objective_spec_example)
  from T have "mvp_objective example_cov [1 / 2, 1 / 2] =
      Inr (objective_spec example_cov [] [] 0 0 [1 / 2, 1 / 2])"
    and "objective_spec example_cov [] [] 0 0 [1 / 2, 1 / 2] = risk_spec example_cov [1 / 2, 1 / 2]"
    by blast+
  then have B: "mvp_objective example_cov [1 / 2, 1 / 2] = Inr (1 / 2)"
    by (simp only: r)
  from A B show ?thesis by (rule conjI)
qed

subsection \<open>The score along increasing score coefficients\<close>

lemma feasible_length: "feasible (bounds K) c w \<Longrightarrow> length w = K"
  by (auto simp: feasible_def bounds_def dest: list_all2_lengthD)

lemma feasible_simplex:
  "feasible (bounds K) constraints w \<longleftrightarrow>
     length w = K \<and> list_all (\<lambda>wi. 0 \<le> wi \<and> wi \<le> 1) w \<and> sum_list w = 1"
  by (auto simp: feasible_def bounds_def constraints_def constraint_holds_def
      list_all2_conv_all_nth list_all_length)

text \<open>
  The initial guess \<^verbatim>\<open>K * [1 / K]\<close>, when it exists, is a point of the feasible region.
\<close>

lemma initial_guess_feasible:
  "initial_guess K = Inr x0 \<Longrightarrow> feasible (bounds K) constraints x0"
  by (auto simp: initial_guess_def feasible_simplex sum_list_replicate list_all_iff
      split: if_splits)

text \<open>
  Claim C3. The solver is scipy's; its results are taken as feasible points that minimise
  the objective up to a tolerance \<open>tol\<close> over the feasible region. With the covariance
  matrix, the total returns, the score vector and the return coefficient fixed, and the
  score coefficients \<open>cs\<close> strictly increasing, the scores \<open>w \<cdot> scoreVector\<close> of the results
  do not decrease by more than \<open>2 * tol / (cs ! j - cs ! i)\<close> from position \<open>i\<close> to a later
  position \<open>j\<close>; for exact minimisers (\<open>tol = 0\<close>) they are non-decreasing.
\<close>

theorem score_monotone:
  assumes len: "length cs = length ws"
    and inc: "sorted_wrt (<) cs"
    and feas: "\<forall>k<length ws. feasible (bounds K) constraints (ws ! k)"
    and opt: "\<forall>k<length ws. \<forall>v. feasible (bounds K) constraints v \<longrightarrow>
                objective_spec C totalReturn scoreVector returnCoef (cs ! k) (ws ! k)
                  \<le> objective_spec C totalReturn scoreVector returnCoef (cs ! k) v + tol"
    and sv: "length scoreVector = K"
    and ij: "i < j" "j < length ws"
  shows "\<exists>si sj. np_dot (ws ! i) scoreVector = Inr si \<and> np_dot (ws ! j) scoreVector = Inr sj \<and>
           si \<le> sj + 2 * tol / (cs ! j - cs ! i)"
proof -
  let ?s = "\<lambda>k. dot_spec (ws ! k) scoreVector"
  let ?f = "\<lambda>k. risk_spec C (ws ! k) - returnCoef * dot_spec (ws ! k) totalReturn"
  from ij have i: "i < length ws" by simp
  have fi: "feasible (bounds K) constraints (ws ! i)" and fj: "feasible (bounds K) constraints (ws ! j)"
    using feas i ij(2) by blast+
  have dots: "np_dot (ws ! i) scoreVector = Inr (?s i)" "np_dot (ws ! j) scoreVector = Inr (?s j)"
    using fi fj sv by (simp_all add: np_dot_Inr feasible_length)
  have lt: "cs ! i < cs ! j"
    using inc ij len by (simp add: sorted_wrt_iff_nth_less)
  from opt i fj have "?f i - cs ! i * ?s i \<le> ?f j - cs ! i * ?s j + tol"
    unfolding objective_spec_def by blast
  moreover from opt ij(2) fi have "?f j - cs ! j * ?s j \<le> ?f i - cs ! j * ?s i + tol"
    unfolding objective_spec_def by blast
  ultimately have "(?s i - ?s j) * (cs ! j - cs ! i) \<le> 2 * tol"
    by (simp add: algebra_simps)
  with lt have "?s i - ?s j \<le> 2 * tol / (cs ! j - cs ! i)"
    by (simp add: pos_le_divide_eq)
  then have "?s i \<le> ?s j + 2 * tol / (cs ! j - cs ! i)"
    by simp
  with dots show ?thesis by blast
qed

theorem score_monotone_witness:
  "\<exists>si sj. np_dot [1 / 2, 1 / 2] [70, 90] = Inr si \<and> np_dot [0, 1] [70, 90] = Inr sj \<and>
     si = 80 \<and> sj = 90 \<and> si \<le> sj"
proof -
  let ?ws = "[[1 / 2, 1 / 2], [0, 1 :: real]]"
  let ?cs = "[0, 2 :: real]"
  let ?obj = "objective_spec example_cov [4 / 100, 1 / 100] [70, 90] 0"
  have two: "feasible (bounds 2) constraints v \<longleftrightarrow>
      (\<exists>a b. v = [a, b] \<and> 0 \<le> a \<and> a \<le> 1 \<and> 0 \<le> b \<and> b \<le> 1 \<and> a + b = 1)" for v
    by (auto simp: feasible_simplex length_Suc_conv numeral_2_eq_2)
  have val: "?obj c [a, b] = a * a + b * b - c * (a * 70 + b * 90)" for c a b
    by (simp add: objective_spec_def risk_spec_def dot_spec_def example_cov_def numeral_2_eq_2)
  have len: "length ?cs = length ?ws" by simp
  have inc: "sorted_wrt (<) ?cs" by simp
  have feas: "\<forall>k<length ?ws. feasible (bounds 2) constraints (?ws ! k)"
    by (simp add: feasible_simplex less_Suc_eq)
  have o0: "?obj 0 [1 / 2, 1 / 2] \<le> ?obj 0 v + 0" if "feasible (bounds 2) constraints v" for v
  proof -
    from that obtain a b where v: "v = [a, b]" "a + b = 1" by (auto simp: two)
    then have b: "b = 1 - a" by simp
    have "0 \<le> (2 * a - 1) * (2 * a - 1)" by simp
    then show ?thesis unfolding v val b by (simp add: algebra_simps)
  qed
  have o1: "?obj 2 [0, 1] \<le> ?obj 2 v + 0" if "feasible (bounds 2) constraints v" for v
  proof -
    from that obtain a b where v: "v = [a, b]" "a + b = 1" "0 \<le> a" by (auto simp: two)
    then have b: "b = 1 - a" by simp
    have "0 \<le> a * a" by simp
    with v(3) show ?thesis unfolding v val b by (simp add: algebra_simps)
  qed
  have opt: "\<forall>k<length ?ws. \<forall>v. feasible (bounds 2) constraints v \<longrightarrow>
      ?obj (?cs ! k) (?ws ! k) \<le> ?obj (?cs ! k) v + 0"
    using o0 o1 by (simp add: less_Suc_eq)
  have sv: "length [70, 90 :: real] = 2" by simp
  from score_monotone [OF len inc feas opt sv, of 0 1]
  obtain si sj where s: "np_dot [1 / 2, 1 / 2] [70, 90] = Inr si" "np_dot [0, 1] [70, 90] = Inr sj"
    "si \<le> sj"
    by auto
  from s(1,2) have "si = 80" "sj = 90"
    by (simp_all add: np_dot_def inner_def)
  with s show ?thesis by auto
qed

subsection \<open>One instrument, and none\<close>

text \<open>
  Claim C4 says that with one instrument the optimiser returns \<open>[1]\<close> without calling the
  general solver. The notebook has no such case: with \<open>K = 1\<close> the result of the cell is
  whatever the solver answers, here the answer of a stand-in that is not \<open>[1]\<close>.
\<close>

theorem single_instrument_counterexample:
  "mvp (fixed_minimizer example_result) [[1]] 1 = Inr example_result \<and>
   x example_result = [0] \<and> x example_result \<noteq> [1]"
  by (simp add: mvp_def initial_guess_def fixed_minimizer_def example_result_def)

text \<open>
  Claim C4, amended. With one instrument each of the three cells calls the solver as for
  any other \<open>K\<close>, with the initial guess \<open>[1]\<close>, the bounds \<open>[(0, 1)]\<close> and the constraint
  that the weights sum to 1, and returns the solver's result. \<open>[1]\<close> is the only point of
  that feasible region, so the weights are \<open>[1]\<close> whenever the solver returns a feasible
  point.
\<close>

theorem single_instrument_call:
  "mvp minimize covMatrix 1 = minimize (mvp_objective covMatrix) [1] [(0, 1)] constraints \<and>
   esg_ret_mvp minimize covMatrix rets df 1 =
     minimize (esg_ret_objective covMatrix rets df) [1] [(0, 1)] constraints \<and>
   impact_esg_mvp minimize covMatrix rets bound dfi 1 =
     minimize (impact_esg_objective covMatrix rets bound dfi) [1] [(0, 1)] constraints \<and>
   (feasible [(0, 1)] constraints w \<longleftrightarrow> w = [1])"
proof -
  have "feasible (bounds 1) constraints w \<longleftrightarrow> w = [1]"
    by (auto simp: feasible_simplex length_Suc_conv)
  then show ?thesis
    by (simp add: mvp_def esg_ret_mvp_def impact_esg_mvp_def initial_guess_def bounds_def)
qed

theorem single_instrument_call_witness:
  "mvp (fixed_minimizer \<lparr>x = [1], success = True\<rparr>) [[4]] 1 = Inr \<lparr>x = [1], success = True\<rparr> \<and>
   feasible [(0, 1)] constraints [1] \<and> \<not> feasible [(0, 1)] constraints [0]"
  using single_instrument_call [of "fixed_minimizer \<lparr>x = [1], success = True\<rparr>" "[[4]]" _ _ _ _ "[1]"]
    single_instrument_call [of "fixed_minimizer \<lparr>x = [1], success = True\<rparr>" "[[4]]" _ _ _ _ "[0]"]
  by (simp add: fixed_minimizer_def)

text \<open>
  Claim C5 says that an empty universe makes the optimisation fail fast with a
  descriptive error. The notebook has no check of the universe. For a raw universe that
  the filters empty, the universe is built without an error and \<open>K\<close> is 0, the return
  statistics of the empty frame and the bounds are computed without an error, and the
  first error is the \<^verbatim>\<open>ZeroDivisionError\<close> of the initial guess \<^verbatim>\<open>K * [1 / K]\<close>, whose text
  is \<^verbatim>\<open>division by zero\<close>.
\<close>

theorem empty_universe_counterexample:
  "universe 70 example_low = [] \<and>
   K_of (universe 70 example_low) = 0 \<and>
   returns \<lparr>columns = [], rows = []\<rparr> = \<lparr>columns = [], rows = []\<rparr> \<and>
   bounds (K_of (universe 70 example_low)) = [] \<and>
   mvp (fixed_minimizer example_result) [] (K_of (universe 70 example_low))
     = Inl ZeroDivisionError \<and>
   error_text ZeroDivisionError = Some ''division by zero''"
  by (simp add: universe_eq example_low_def K_of_def returns_def dropna_def replace_inf_nan_def
      pct_change_def bounds_def mvp_def initial_guess_def)

text \<open>
  Claim C5, amended. When the filters leave no instrument, the universe is the empty
  list, \<open>K\<close> is 0 and the bounds are empty, and each of the three optimisations ends with
  Python's \<^verbatim>\<open>ZeroDivisionError\<close> (text \<^verbatim>\<open>division by zero\<close>), raised by the initial guess
  \<^verbatim>\<open>K * [1 / K]\<close> before the solver is called: whatever the solver is, it is never called
  with zero variables.
\<close>

theorem empty_universe_fails:
  assumes "K_of (universe bound df_esg) = 0"
  shows "universe bound df_esg = [] \<and>
         bounds (K_of (universe bound df_esg)) = [] \<and>
         initial_guess (K_of (universe bound df_esg)) = Inl ZeroDivisionError \<and>
         mvp minimize covMatrix (K_of (universe bound df_esg)) = Inl ZeroDivisionError \<and>
         esg_ret_mvp minimize covMatrix rets (universe bound df_esg) (K_of (universe bound df_esg))
           = Inl ZeroDivisionError \<and>
         impact_esg_mvp minimize covMatrix rets bound dfi (K_of (universe bound df_esg))
           = Inl ZeroDivisionError \<and>
         error_text ZeroDivisionError = Some ''division by zero''"
  using assms
  by (simp add: K_of_def mvp_def esg_ret_mvp_def impact_esg_mvp_def initial_guess_def bounds_def)

theorem empty_universe_fails_witness:
  "K_of (universe 70 example_low) = 0 \<and>
   esg_ret_mvp (fixed_minimizer example_result) [] \<lparr>columns = [], rows = []\<rparr>
     (universe 70 example_low) (K_of (universe 70 example_low)) = Inl ZeroDivisionError \<and>
   impact_esg_mvp (fixed_minimizer example_result) [] \<lparr>columns = [], rows = []\<rparr> 70 []
     (K_of (universe 70 example_low)) = Inl ZeroDivisionError"
proof -
  have k: "K_of (universe 70 example_low) = 0"
    by (simp add: universe_eq example_low_def K_of_def)
  from empty_universe_fails [OF k] k show ?thesis by blast
qed

end
